theory Spec2Isabelle
  imports Main "HOL-Library.AList"
begin

section \<open>Connections (connection.go)\<close>

text \<open>
  The gateway shares \<^verbatim>\<open>*Connection\<close> pointers between its goroutines and the three maps
  of the connection storage, and \<^verbatim>\<open>Close\<close> overwrites the fields of the object that the
  maps still point to.  Connections therefore live in an explicit store: a pointer is an
  address, the store maps every address to the object it holds.  Go is garbage collected,
  so a pointer never dangles and the store is total.
\<close>

type_synonym ConnectionID = int
type_synonym UserID = string
type_synonym DeviceID = string
type_synonym ptr = nat

text \<open>What \<^verbatim>\<open>ws.WriteMessage\<close> was asked to put on the wire.\<close>

datatype frame = TextFrame string | BinaryFrame string | CloseFrame int string

definition TextMessage :: int where "TextMessage = 1"
definition BinaryMessage :: int where "BinaryMessage = 2"
definition CloseMessage :: int where "CloseMessage = 8"

definition CloseNormalClosure :: int where "CloseNormalClosure = 1000"
definition CloseGoingAway :: int where "CloseGoingAway = 1001"
definition ClosePolicyViolation :: int where "ClosePolicyViolation = 1008"
definition CloseInternalServerErr :: int where "CloseInternalServerErr = 1011"

text \<open>
  The \<^verbatim>\<open>ws\<close> field is the socket of the transport library: whether it is still open, the
  frames written to it and its read limit.  The two mutexes of the struct guard single
  field accesses and are not modelled; \<open>idC\<close> is the field \<^verbatim>\<open>id\<close>, times are Unix seconds
  (the zero time that \<^verbatim>\<open>lastMessageAt\<close> starts with is written 0; nothing reads it).
\<close>

record Connection =
  ws_open :: bool
  ws_written :: "frame list"
  ws_readLimit :: int
  idC :: ConnectionID
  userID :: UserID
  deviceID :: DeviceID
  startTime :: int
  lastMessageAt :: int

type_synonym store = "ptr \<Rightarrow> Connection"

text \<open>\<^verbatim>\<open>ws.WriteMessage\<close>: a write to a socket that was closed fails, and every caller drops the error.\<close>

definition WriteMessage :: "frame \<Rightarrow> Connection \<Rightarrow> Connection" where
  "WriteMessage f c = (if ws_open c then c\<lparr>ws_written := ws_written c @ [f]\<rparr> else c)"

definition NewConnection :: "int \<Rightarrow> ConnectionID \<Rightarrow> int \<Rightarrow> Connection" where
  "NewConnection now i limit =
     \<lparr>ws_open = True, ws_written = [], ws_readLimit = limit, idC = i, userID = [],
      deviceID = [], startTime = now, lastMessageAt = 0\<rparr>"

definition SendText :: "store \<Rightarrow> ptr \<Rightarrow> string \<Rightarrow> store" where
  "SendText h c message = h(c := WriteMessage (TextFrame message) (h c))"

definition SendBinary :: "store \<Rightarrow> ptr \<Rightarrow> string \<Rightarrow> store" where
  "SendBinary h c message = h(c := WriteMessage (BinaryFrame message) (h c))"

text \<open>
  \<^verbatim>\<open>Close(code, reason)\<close> never reads \<^verbatim>\<open>code\<close>: the close frame is always formatted with
  \<^verbatim>\<open>websocket.CloseNormalClosure\<close>.
\<close>

definition Close :: "store \<Rightarrow> ptr \<Rightarrow> int \<Rightarrow> string \<Rightarrow> store" where
  "Close h c code reason =
     h(c := (WriteMessage (CloseFrame CloseNormalClosure reason) (h c))
              \<lparr>ws_open := False, idC := - 1, userID := [], deviceID := []\<rparr>)"

definition IsLoggedIn :: "store \<Rightarrow> ptr \<Rightarrow> bool" where
  "IsLoggedIn h c = (userID (h c) \<noteq> [])"

text \<open>\<^verbatim>\<open>IsClosed\<close> returns whatever its call of \<^verbatim>\<open>IsClosed\<close> on the same receiver returns.\<close>

partial_function (option) IsClosed :: "store \<Rightarrow> ptr \<Rightarrow> bool option" where
  "IsClosed h c = IsClosed h c"

definition GetInfo :: "store \<Rightarrow> ptr \<Rightarrow> ConnectionID \<times> UserID \<times> DeviceID" where
  "GetInfo h c = (idC (h c), userID (h c), deviceID (h c))"

definition GetStartTime :: "store \<Rightarrow> ptr \<Rightarrow> int" where
  "GetStartTime h c = startTime (h c)"

definition Login :: "store \<Rightarrow> ptr \<Rightarrow> UserID \<Rightarrow> DeviceID \<Rightarrow> store" where
  "Login h c u d = h(c := (h c)\<lparr>userID := u, deviceID := d, ws_readLimit := 0\<rparr>)"

definition UpdateLastPingTime :: "int \<Rightarrow> store \<Rightarrow> ptr \<Rightarrow> store" where
  "UpdateLastPingTime now h c = h(c := (h c)\<lparr>lastMessageAt := now\<rparr>)"

section \<open>The connection storage\<close>

text \<open>
  Go maps are association lists here, read with \<^const>\<open>map_of\<close> and written with
  \<^const>\<open>AList.update\<close> and \<^const>\<open>AList.delete\<close>: \<^verbatim>\<open>RemoveIf\<close> ranges over one of them and
  \<^verbatim>\<open>GetStats\<close> takes their lengths.  A lookup of a missing key is Go's \<^verbatim>\<open>nil\<close>.
  \<open>len\<close> counts keys, as Go's \<^verbatim>\<open>len\<close> does on a map.
\<close>

definition len :: "('k \<times> 'v) list \<Rightarrow> nat" where
  "len m = length (remdups (map fst m))"

record ConnectionsStats =
  NumberOfUsers :: int
  NumberOfDevices :: int
  NumberOfNotLoggedConnections :: int

record ConnectionsStorage =
  connectionsByID :: "(ConnectionID \<times> ptr) list"
  connectionsByUserID :: "(UserID \<times> (DeviceID \<times> ptr) list) list"
  connectionsByDeviceID :: "(DeviceID \<times> ptr) list"
  numberOfNotLoggedConnections :: int

definition NewConnectionsStorage :: ConnectionsStorage where
  "NewConnectionsStorage =
     \<lparr>connectionsByID = [], connectionsByUserID = [], connectionsByDeviceID = [],
      numberOfNotLoggedConnections = 0\<rparr>"

definition AddNewConnection :: "store \<Rightarrow> ConnectionsStorage \<Rightarrow> ptr \<Rightarrow> ConnectionsStorage" where
  "AddNewConnection h s c =
     s\<lparr>numberOfNotLoggedConnections := numberOfNotLoggedConnections s + 1,
       connectionsByID := AList.update (idC (h c)) c (connectionsByID s)\<rparr>"

definition removeConnection :: "store \<Rightarrow> ConnectionsStorage \<Rightarrow> ptr \<Rightarrow> ConnectionsStorage" where
  "removeConnection h s c =
     (case GetInfo h c of (connectionID, user, device) \<Rightarrow>
        (case map_of (connectionsByID s) connectionID of
           None \<Rightarrow> s
         | Some connectionBefore \<Rightarrow>
             let s1 = s\<lparr>connectionsByID := AList.delete connectionID (connectionsByID s)\<rparr> in
             if user = [] then
               s1\<lparr>numberOfNotLoggedConnections := numberOfNotLoggedConnections s1 - 1\<rparr>
             else
               let s2 =
                     (case map_of (connectionsByUserID s1) user of
                        None \<Rightarrow> s1
                      | Some userConnections \<Rightarrow>
                          let userConnections' = AList.delete device userConnections in
                          if len userConnections' = 0 then
                            s1\<lparr>connectionsByUserID := AList.delete user (connectionsByUserID s1)\<rparr>
                          else
                            s1\<lparr>connectionsByUserID :=
                                 AList.update user userConnections' (connectionsByUserID s1)\<rparr>)
               in (case map_of (connectionsByDeviceID s2) device of
                     None \<Rightarrow> s2
                   | Some deviceConnection \<Rightarrow>
                       s2\<lparr>connectionsByDeviceID :=
                            AList.delete device (connectionsByDeviceID s2)\<rparr>)))"

definition RemoveConnection :: "store \<Rightarrow> ConnectionsStorage \<Rightarrow> ptr \<Rightarrow> ConnectionsStorage" where
  "RemoveConnection h s c = removeConnection h s c"

text \<open>
  \<^verbatim>\<open>OnLogin\<close> returns the connection that held the device before, or \<^verbatim>\<open>nil\<close>.  It reads the
  device slot with the field \<^verbatim>\<open>connection.deviceID\<close> and writes it with the device of
  \<^verbatim>\<open>GetInfo\<close>; both are the same field of the same object.
\<close>

definition OnLogin :: "store \<Rightarrow> ConnectionsStorage \<Rightarrow> ptr \<Rightarrow> ConnectionsStorage \<times> ptr option" where
  "OnLogin h s c =
     (case GetInfo h c of (connectionID, user, device) \<Rightarrow>
        if user = [] then (s, None)
        else
          let s1 = s\<lparr>numberOfNotLoggedConnections := numberOfNotLoggedConnections s - 1\<rparr>;
              deviceConnectionBefore = map_of (connectionsByDeviceID s1) (deviceID (h c));
              s2 = (case deviceConnectionBefore of
                      None \<Rightarrow> s1
                    | Some evicted \<Rightarrow> removeConnection h s1 evicted);
              s3 = s2\<lparr>connectionsByDeviceID := AList.update device c (connectionsByDeviceID s2)\<rparr>;
              userConnections =
                (case map_of (connectionsByUserID s3) user of
                   None \<Rightarrow> []
                 | Some m \<Rightarrow> m);
              s4 = s3\<lparr>connectionsByUserID :=
                        AList.update user (AList.update device c userConnections)
                          (connectionsByUserID s3)\<rparr>
          in (s4, deviceConnectionBefore))"

definition GetUserConnections :: "ConnectionsStorage \<Rightarrow> UserID \<Rightarrow> (DeviceID \<times> ptr) list option" where
  "GetUserConnections s u = map_of (connectionsByUserID s) u"

definition GetDeviceConnection :: "ConnectionsStorage \<Rightarrow> DeviceID \<Rightarrow> ptr option" where
  "GetDeviceConnection s d = map_of (connectionsByDeviceID s) d"

definition GetConnectionByID :: "ConnectionsStorage \<Rightarrow> ConnectionID \<Rightarrow> ptr option" where
  "GetConnectionByID s i = map_of (connectionsByID s) i"

definition GetStats :: "ConnectionsStorage \<Rightarrow> ConnectionsStats" where
  "GetStats s =
     \<lparr>NumberOfUsers = int (len (connectionsByUserID s)),
      NumberOfDevices = int (len (connectionsByDeviceID s)),
      NumberOfNotLoggedConnections = numberOfNotLoggedConnections s\<rparr>"

text \<open>
  One iteration of the loop of \<^verbatim>\<open>RemoveIf\<close> on the entry \<open>(i, c)\<close>.  The callback runs
  inside the loop and may write to the store, so the store is threaded through.
\<close>

definition RemoveIf_body ::
  "(store \<Rightarrow> ptr \<Rightarrow> bool) \<Rightarrow> (store \<Rightarrow> ptr \<Rightarrow> store) \<Rightarrow> ConnectionID \<times> ptr \<Rightarrow>
     store \<times> ConnectionsStorage \<Rightarrow> store \<times> ConnectionsStorage" where
  "RemoveIf_body condition afterRemove e hs =
     (case e of (i, c) \<Rightarrow> case hs of (h, s) \<Rightarrow>
        if condition h c then
          (case GetInfo h c of (connectionID, user, device) \<Rightarrow>
             let s1 = s\<lparr>connectionsByID := AList.delete i (connectionsByID s)\<rparr>;
                 s2 = (if device \<noteq> []
                       then s1\<lparr>connectionsByDeviceID :=
                                 AList.delete device (connectionsByDeviceID s1)\<rparr>
                       else s1);
                 s3 = (if user \<noteq> [] then
                         (case map_of (connectionsByUserID s2) user of
                            None \<Rightarrow> s2
                          | Some userConnections \<Rightarrow>
                              if len userConnections = 1 then
                                s2\<lparr>connectionsByUserID :=
                                     AList.delete user (connectionsByUserID s2)\<rparr>
                              else
                                s2\<lparr>connectionsByUserID :=
                                     AList.update user (AList.delete device userConnections)
                                       (connectionsByUserID s2)\<rparr>)
                       else s2)
             in (afterRemove h c, s3))
        else (h, s))"

text \<open>
  The loop ranges over the entries of the by-id map.  Go fixes no order for that; the
  model takes the order of the list, and a body deletes no entry but its own, so every
  entry present at the start is visited once.
\<close>

fun RemoveIf_loop ::
  "(store \<Rightarrow> ptr \<Rightarrow> bool) \<Rightarrow> (store \<Rightarrow> ptr \<Rightarrow> store) \<Rightarrow> (ConnectionID \<times> ptr) list \<Rightarrow>
     store \<times> ConnectionsStorage \<Rightarrow> store \<times> ConnectionsStorage" where
  "RemoveIf_loop condition afterRemove [] hs = hs"
| "RemoveIf_loop condition afterRemove (e # es) hs =
     RemoveIf_loop condition afterRemove es (RemoveIf_body condition afterRemove e hs)"

definition RemoveIf ::
  "(store \<Rightarrow> ptr \<Rightarrow> bool) \<Rightarrow> (store \<Rightarrow> ptr \<Rightarrow> store) \<Rightarrow>
     store \<times> ConnectionsStorage \<Rightarrow> store \<times> ConnectionsStorage" where
  "RemoveIf condition afterRemove hs =
     RemoveIf_loop condition afterRemove (connectionsByID (snd hs)) hs"

text \<open>The number of sessions of the by-id map that hold no identity.\<close>

definition unauthenticatedByID :: "store \<Rightarrow> ConnectionsStorage \<Rightarrow> int" where
  "unauthenticatedByID h s =
     int (length (filter (\<lambda>e. userID (h (snd e)) = []) (connectionsByID s)))"

section \<open>Bearer tokens (jwt.go)\<close>

text \<open>\<^verbatim>\<open>bytes.HasPrefix\<close> and \<^verbatim>\<open>strings.Index\<close> on byte strings.\<close>

definition HasPrefix :: "string \<Rightarrow> string \<Rightarrow> bool" where
  "HasPrefix s p = (length p \<le> length s \<and> take (length p) s = p)"

fun Index :: "string \<Rightarrow> string \<Rightarrow> nat option" where
  "Index [] sep = (if sep = [] then Some 0 else None)"
| "Index (c # cs) sep =
     (if HasPrefix (c # cs) sep then Some 0 else map_option Suc (Index cs sep))"

text \<open>
  \<^verbatim>\<open>strings.Split\<close>: cut at every occurrence of the separator, left to right, the
  occurrences not overlapping.  With the empty separator Go cuts after every UTF-8
  sequence; the model cuts after every byte there, and \<^verbatim>\<open>ResolveIDToken\<close> never passes it.
\<close>

function Split :: "string \<Rightarrow> string \<Rightarrow> string list" where
  "Split s sep =
     (if sep = [] then map (\<lambda>c. [c]) s
      else (case Index s sep of
              None \<Rightarrow> [s]
            | Some m \<Rightarrow> take m s # Split (drop (m + length sep) s) sep))"
  by pat_completeness auto
termination
proof (relation "measure (\<lambda>(s, sep). length s)")
  show "wf (measure (\<lambda>(s, sep). length s))"
    by simp
next
  fix s sep :: string and m :: nat
  assume "sep \<noteq> []" and "Index s sep = Some m"
  then have "s \<noteq> []" and "0 < length sep"
    by auto
  then show "((drop (m + length sep) s, sep), (s, sep)) \<in> measure (\<lambda>(s, sep). length s)"
    by simp
qed

declare Split.simps [simp del]

definition ResolveIDToken :: "string \<Rightarrow> string \<times> bool" where
  "ResolveIDToken token =
     (let idtokensegments = Split token ''Bearer '' in
      if length idtokensegments \<noteq> 2 then ([], False)
      else (idtokensegments ! 1, True))"

text \<open>
  \<^verbatim>\<open>jwt.MapClaims\<close> is a map from names to decoded JSON values.  The gateway only asks
  whether a value is a string, so the payload of the other kinds is left out.
\<close>

datatype jvalue = JNull | JBool bool | JNumber | JString string | JArray | JObject

type_synonym MapClaims = "string \<rightharpoonup> jvalue"

text \<open>
  \<^verbatim>\<open>jwt.ParseWithClaims\<close> belongs to the token library and fetches the key set over the
  network: it is a parameter.  \<open>ParseErr\<close> is a non-nil \<^verbatim>\<open>err\<close>; \<open>Parsed claims v\<close> is a
  nil \<^verbatim>\<open>err\<close> with \<^verbatim>\<open>token.Valid = v\<close>.
\<close>

datatype parse_result = ParseErr string | Parsed MapClaims bool

text \<open>The results of \<^verbatim>\<open>natsPool.Get\<close> and of \<^verbatim>\<open>busClient.Subscribe\<close>, parameters as well.\<close>

datatype pool_get = GetOk nat | GetErr string
datatype subscribe_result = SubOk | SubErr string

record Env =
  ParseWithClaims :: "string \<Rightarrow> string \<Rightarrow> parse_result"
  Pool_Get :: pool_get
  Subscribe :: "nat \<Rightarrow> string \<Rightarrow> subscribe_result"

section \<open>The gateway\<close>

record Config =
  ListenInterface :: string
  URLPattern :: string
  JWKS :: string
  NatsAddress :: string
  NatsPoolSize :: int
  NatsTopics :: "string list"
  RemoteAddr :: string

definition LoginPrefix :: string where "LoginPrefix = ''login>:''"
definition TopicPrefix :: string where "TopicPrefix = ''topic>:''"

definition MaxUnLoggedConnectionCount :: int where "MaxUnLoggedConnectionCount = 200"
definition UnLoggedConnectionTimeout :: int where "UnLoggedConnectionTimeout = 60"

text \<open>
  The state of the gateway process: the fields of \<^verbatim>\<open>NatsWebSocket\<close>, the store of the
  connection objects with the number of objects allocated so far, the package variable
  \<^verbatim>\<open>JWKS\<close> of jwt.go, the handles obtained from the pool and the callbacks installed on
  the bus (bus client, topic, connection written to).
\<close>

record NatsWebSocket =
  config :: Config
  connections :: ConnectionsStorage
  lastConnectionNumber :: int
  heap :: store
  allocated :: nat
  JWKS_var :: string
  leases :: "nat list"
  subscriptions :: "(nat \<times> string \<times> ptr) list"

text \<open>
  A handler either returns to a running process, or panics in its goroutine, or leaves
  through \<^verbatim>\<open>log.Fatalf\<close>, which prints and calls \<^verbatim>\<open>os.Exit(1)\<close>.  The last two end the
  process: no goroutine of the gateway recovers.
\<close>

datatype 'a outcome = Running 'a | Panicked string | Exited string

definition blank :: Connection where
  "blank = \<lparr>ws_open = False, ws_written = [], ws_readLimit = 0, idC = - 1, userID = [],
            deviceID = [], startTime = 0, lastMessageAt = 0\<rparr>"

definition New :: "Config \<Rightarrow> NatsWebSocket" where
  "New cfg =
     \<lparr>config = cfg, connections = NewConnectionsStorage, lastConnectionNumber = 0,
      heap = (\<lambda>_. blank), allocated = 0, JWKS_var = [], leases = [], subscriptions = []\<rparr>"

definition reply :: "NatsWebSocket \<Rightarrow> ptr \<Rightarrow> string \<Rightarrow> NatsWebSocket" where
  "reply w c message = w\<lparr>heap := SendText (heap w) c message\<rparr>"

text \<open>
  \<^verbatim>\<open>registerConnection\<close>: the identifier is the incremented counter (an int64 that does
  not wrap within the life of a process), the object is freshly allocated.  The read
  limit 1024 is the one \<^verbatim>\<open>onConnection\<close> has just set on the socket.
\<close>

definition registerConnection :: "int \<Rightarrow> NatsWebSocket \<Rightarrow> NatsWebSocket \<times> ptr" where
  "registerConnection now w =
     (let i = lastConnectionNumber w + 1;
          wsConnection = allocated w;
          h = (heap w)(wsConnection := NewConnection now i 1024)
      in (w\<lparr>lastConnectionNumber := i, allocated := Suc wsConnection, heap := h,
            connections := AddNewConnection h (connections w) wsConnection\<rparr>,
          wsConnection))"

definition unregisterConnection :: "NatsWebSocket \<Rightarrow> ptr \<Rightarrow> NatsWebSocket" where
  "unregisterConnection w c = w\<lparr>connections := RemoveConnection (heap w) (connections w) c\<rparr>"

definition cleanConnectionsIfNeed :: "int \<Rightarrow> NatsWebSocket \<Rightarrow> ptr \<Rightarrow> NatsWebSocket" where
  "cleanConnectionsIfNeed now w c =
     (let stats = GetStats (connections w) in
      if NumberOfNotLoggedConnections stats > MaxUnLoggedConnectionCount then
        (case RemoveIf (\<lambda>h con. now - GetStartTime h con > UnLoggedConnectionTimeout)
                (\<lambda>h con. Close h con ClosePolicyViolation ''Auth'')
                (heap w, connections w) of
           (h, s) \<Rightarrow> w\<lparr>heap := h, connections := s\<rparr>)
      else w)"

text \<open>
  \<^verbatim>\<open>onConnection\<close> after a successful upgrade; the read loop it starts is
  \<open>handleInputMessages\<close> below.
\<close>

definition onConnection :: "int \<Rightarrow> NatsWebSocket \<Rightarrow> NatsWebSocket \<times> ptr" where
  "onConnection now w =
     (case registerConnection now w of (w1, con) \<Rightarrow> (cleanConnectionsIfNeed now w1 con, con))"

definition onClose :: "NatsWebSocket \<Rightarrow> ptr \<Rightarrow> NatsWebSocket" where
  "onClose w c =
     (case GetInfo (heap w) c of (connectionID, _, _) \<Rightarrow>
        if connectionID = - 1 then w else unregisterConnection w c)"

fun contains :: "string list \<Rightarrow> string \<Rightarrow> bool" where
  "contains [] target = False"
| "contains (element # source) target = (if element = target then True else contains source target)"

definition setupSubsrciber :: "Env \<Rightarrow> NatsWebSocket \<Rightarrow> ptr \<Rightarrow> string \<Rightarrow> NatsWebSocket outcome" where
  "setupSubsrciber env w c topic =
     (if \<not> contains (NatsTopics (config w)) topic then Running (reply w c ''invalid topic'')
      else (case Pool_Get env of
              GetErr e \<Rightarrow> Exited (''Can't connect to nats: '' @ e)
            | GetOk busClient \<Rightarrow>
                let w1 = w\<lparr>leases := leases w @ [busClient]\<rparr> in
                (case Subscribe env busClient topic of
                   SubErr e \<Rightarrow> Exited (''Can't connect to nats: '' @ e)
                 | SubOk \<Rightarrow>
                     Running (w1\<lparr>subscriptions := subscriptions w1 @ [(busClient, topic, c)]\<rparr>))))"

text \<open>
  The user of the claims: \<^verbatim>\<open>claims["userId"].(string)\<close> when the key is there, else
  \<^verbatim>\<open>claims["name"].(string)\<close>.  A type assertion on a value that is no string (the nil of
  a missing key too) panics: \<open>None\<close>.
\<close>

definition assertString :: "jvalue option \<Rightarrow> string option" where
  "assertString v = (case v of Some (JString x) \<Rightarrow> Some x | _ \<Rightarrow> None)"

definition claimsUserID :: "MapClaims \<Rightarrow> UserID option" where
  "claimsUserID claims =
     (case claims ''userId'' of
        Some uid \<Rightarrow> assertString (Some uid)
      | None \<Rightarrow> assertString (claims ''name''))"

text \<open>\<^verbatim>\<open>ParseJWT\<close> stores the key-set address in the package variable before it parses.\<close>

definition ParseJWT :: "Env \<Rightarrow> NatsWebSocket \<Rightarrow> string \<Rightarrow> string \<Rightarrow> NatsWebSocket \<times> parse_result" where
  "ParseJWT env w idtoken jwks = (w\<lparr>JWKS_var := jwks\<rparr>, ParseWithClaims env idtoken jwks)"

definition login :: "Env \<Rightarrow> NatsWebSocket \<Rightarrow> ptr \<Rightarrow> string \<Rightarrow> NatsWebSocket outcome" where
  "login env w c tokenBinary =
     (case ResolveIDToken tokenBinary of (idtoken, valid) \<Rightarrow>
        if \<not> valid then Running (reply w c (LoginPrefix @ ''Not Authorized''))
        else
          (case ParseJWT env w idtoken (JWKS (config w)) of (w1, parsed) \<Rightarrow>
             (case parsed of
                ParseErr e \<Rightarrow> Running (reply w1 c (LoginPrefix @ ''Not Authorized''))
              | Parsed claims tokenValid \<Rightarrow>
                  if \<not> tokenValid then Running (reply w1 c (LoginPrefix @ ''Not Authorized''))
                  else
                    (case claimsUserID claims of
                       None \<Rightarrow> Panicked ''interface conversion: interface {} is not string''
                     | Some user \<Rightarrow>
                         let device = RemoteAddr (config w1) in
                         (case GetInfo (heap w1) c of (_, conUserID, _) \<Rightarrow>
                            if conUserID \<noteq> [] then
                              (if conUserID \<noteq> user then Running (reply w1 c ''go away'')
                               else Running (reply w1 c ''ok''))
                            else
                              let h1 = Login (heap w1) c user device in
                              (case OnLogin h1 (connections w1) c of
                                 (s1, deviceConnectionBefore) \<Rightarrow>
                                   let w2 = w1\<lparr>heap := h1, connections := s1\<rparr>;
                                       w3 = (case deviceConnectionBefore of
                                               None \<Rightarrow> w2
                                             | Some evicted \<Rightarrow>
                                                 unregisterConnection
                                                   (w2\<lparr>heap := Close (heap w2) evicted CloseGoingAway
                                                                  ''OneConnectionPerDevice''\<rparr>)
                                                   evicted)
                                   in Running (reply w3 c ''ok'')))))))"

definition onTextMessage :: "Env \<Rightarrow> NatsWebSocket \<Rightarrow> ptr \<Rightarrow> string \<Rightarrow> NatsWebSocket outcome" where
  "onTextMessage env w c message =
     (if message = ''ping'' then Running (reply w c ''pong'')
      else if HasPrefix message LoginPrefix then
        login env w c (drop (length LoginPrefix) message)
      else if HasPrefix message TopicPrefix then
        (if \<not> IsLoggedIn (heap w) c then Running (reply w c ''go away'')
         else setupSubsrciber env w c (drop (length TopicPrefix) message))
      else Running w)"

definition onBinaryMessage :: "NatsWebSocket \<Rightarrow> ptr \<Rightarrow> string \<Rightarrow> NatsWebSocket" where
  "onBinaryMessage w c message = reply w c ''binary message is not supported yet''"

text \<open>
  What one call of \<^verbatim>\<open>connection.ReadMessage\<close> brings: a frame with its type, payload and
  time of arrival; a close frame of the peer, for which the transport library runs the
  close handler that \<^verbatim>\<open>registerConnection\<close> installed (it calls \<^verbatim>\<open>onClose\<close>) and then
  returns an error; or a failed read.
\<close>

datatype read = Message int int string | PeerClose | ReadFailure

text \<open>
  The read loop on the reads that arrive.  The flag of the result says whether the loop
  has returned; with no read left it is blocked in \<^verbatim>\<open>ReadMessage\<close>.
\<close>

fun handleInputMessages ::
  "Env \<Rightarrow> NatsWebSocket \<Rightarrow> ptr \<Rightarrow> read list \<Rightarrow> (NatsWebSocket \<times> bool) outcome" where
  "handleInputMessages env w c [] = Running (w, False)"
| "handleInputMessages env w c (ReadFailure # rs) =
     (let w1 = w\<lparr>heap := Close (heap w) c CloseInternalServerErr ''ServerError''\<rparr>
      in Running (onClose w1 c, True))"
| "handleInputMessages env w c (PeerClose # rs) =
     (let w0 = onClose w c;
          w1 = w0\<lparr>heap := Close (heap w0) c CloseInternalServerErr ''ServerError''\<rparr>
      in Running (onClose w1 c, True))"
| "handleInputMessages env w c (Message now messageType message # rs) =
     (let w1 = w\<lparr>heap := UpdateLastPingTime now (heap w) c\<rparr> in
      if messageType = TextMessage then
        (case onTextMessage env w1 c message of
           Running w2 \<Rightarrow> handleInputMessages env w2 c rs
         | Panicked e \<Rightarrow> Panicked e
         | Exited e \<Rightarrow> Exited e)
      else if messageType = BinaryMessage then
        handleInputMessages env (onBinaryMessage w1 c message) c rs
      else if messageType = CloseMessage then Running (onClose w1 c, True)
      else handleInputMessages env w1 c rs)"

section \<open>Example states\<close>

text \<open>
  The configuration of the repository's test, with an address for the device.  In
  \<open>exampleEnv\<close> the token library accepts three tokens: one whose claims carry a name,
  one whose claims carry a user id, and one whose claims carry neither; the bus is up.
  In \<open>downEnv\<close> the pool has no handle to give.
\<close>

definition exampleConfig :: Config where
  "exampleConfig =
     \<lparr>ListenInterface = ''localhost:8080'', URLPattern = ''/'',
      JWKS = ''https://min.auth0.com/.well-known/jwks.json'',
      NatsAddress = ''nats://localhost:4222'', NatsPoolSize = 2,
      NatsTopics = [''test.a'', ''test.b''], RemoteAddr = ''203.0.113.7''\<rparr>"

definition exampleEnv :: Env where
  "exampleEnv =
     \<lparr>ParseWithClaims = (\<lambda>idtoken jwks.
         if idtoken = ''min'' then Parsed [''name'' \<mapsto> JString ''min ju''] True
         else if idtoken = ''ann'' then Parsed [''userId'' \<mapsto> JString ''ann''] True
         else if idtoken = ''nameless'' then Parsed [''sub'' \<mapsto> JString ''github|1956612''] True
         else ParseErr ''token contains an invalid number of segments''),
      Pool_Get = GetOk 0,
      Subscribe = (\<lambda>busClient topic. SubOk)\<rparr>"

definition downEnv :: Env where
  "downEnv = exampleEnv\<lparr>Pool_Get := GetErr ''nats: no servers available''\<rparr>"

text \<open>
  \<open>accepted\<close>: a fresh gateway that has accepted one connection at time 0 (object 0,
  identifier 1).  \<open>loggedIn\<close>: the same after that connection has logged in as \<open>min ju\<close>.
  \<open>secondArrived\<close>: a second connection (object 1, identifier 2) was accepted at time 5.
\<close>

definition accepted :: NatsWebSocket where
  "accepted = fst (onConnection 0 (New exampleConfig))"

definition loggedIn :: NatsWebSocket where
  "loggedIn =
     (case onTextMessage exampleEnv accepted 0 ''login>:Bearer min'' of
        Running w \<Rightarrow> w
      | _ \<Rightarrow> accepted)"


text \<open>
  \<open>accepts now n w\<close>: the gateway \<open>w\<close> after \<open>n\<close> more connections were accepted at time
  \<open>now\<close>.  \<open>crowded\<close>: after \<open>loggedIn\<close>, 200 connections were accepted at time 100
  and none of them has logged in; one more has just been registered and its accept is
  about to look whether a sweep is needed.  \<open>crowd n\<close> writes out the state after \<open>n\<close> such
  registrations: objects 1 to \<open>n\<close> with the identifiers 2 to \<open>n + 1\<close>.
\<close>

fun accepts :: "int \<Rightarrow> nat \<Rightarrow> NatsWebSocket \<Rightarrow> NatsWebSocket" where
  "accepts now 0 w = w"
| "accepts now (Suc n) w = fst (onConnection now (accepts now n w))"

definition crowded :: NatsWebSocket where
  "crowded = fst (registerConnection 100 (accepts 100 200 loggedIn))"

definition crowd :: "nat \<Rightarrow> NatsWebSocket" where
  "crowd n =
     \<lparr>config = exampleConfig,
      connections =
        \<lparr>connectionsByID = map (\<lambda>p. (int p + 1, p)) [0..<Suc n],
         connectionsByUserID = [(''min ju'', [(''203.0.113.7'', 0)])],
         connectionsByDeviceID = [(''203.0.113.7'', 0)],
         numberOfNotLoggedConnections = int n\<rparr>,
      lastConnectionNumber = int n + 1,
      heap = (\<lambda>p. if p = 0 then heap loggedIn 0
                  else if p < Suc n then NewConnection 100 (int p + 1) 1024 else blank),
      allocated = Suc n,
      JWKS_var = JWKS exampleConfig, leases = [], subscriptions = []\<rparr>"

text \<open>
  \<open>oneRegistered\<close>: a fresh storage with one connection registered at time 0.
  \<open>swept\<close>: the same after the sweep of \<open>cleanConnectionsIfNeed\<close> has run at time 61.
\<close>

definition oneRegistered :: "store \<times> ConnectionsStorage" where
  "oneRegistered =
     ((\<lambda>_. blank)(0 := NewConnection 0 1 1024),
      AddNewConnection ((\<lambda>_. blank)(0 := NewConnection 0 1 1024)) NewConnectionsStorage 0)"

definition swept :: "store \<times> ConnectionsStorage" where
  "swept =
     RemoveIf (\<lambda>h con. 61 - GetStartTime h con > UnLoggedConnectionTimeout)
       (\<lambda>h con. Close h con ClosePolicyViolation ''Auth'') oneRegistered"

text \<open>The two closures that \<^verbatim>\<open>cleanConnectionsIfNeed\<close> passes to \<^verbatim>\<open>RemoveIf\<close>.\<close>

abbreviation (input) olderThan :: "int \<Rightarrow> store \<Rightarrow> ptr \<Rightarrow> bool" where
  "olderThan now \<equiv> \<lambda>h con. now - GetStartTime h con > UnLoggedConnectionTimeout"

abbreviation (input) closeAuth :: "store \<Rightarrow> ptr \<Rightarrow> store" where
  "closeAuth \<equiv> \<lambda>h con. Close h con ClosePolicyViolation ''Auth''"

section \<open>Unfolding the model\<close>

lemmas connection_defs =
  NewConnection_def WriteMessage_def SendText_def Close_def IsLoggedIn_def GetInfo_def
  GetStartTime_def Login_def UpdateLastPingTime_def CloseNormalClosure_def blank_def

lemmas storage_defs =
  NewConnectionsStorage_def AddNewConnection_def removeConnection_def RemoveConnection_def
  OnLogin_def GetConnectionByID_def GetDeviceConnection_def GetUserConnections_def
  GetStats_def RemoveIf_def RemoveIf_body_def len_def Let_def

lemmas token_defs =
  ResolveIDToken_def Split.simps HasPrefix_def claimsUserID_def assertString_def ParseJWT_def

lemmas gateway_defs =
  New_def reply_def registerConnection_def unregisterConnection_def
  cleanConnectionsIfNeed_def onConnection_def onClose_def setupSubsrciber_def login_def
  onTextMessage_def onBinaryMessage_def LoginPrefix_def TopicPrefix_def TextMessage_def
  BinaryMessage_def CloseMessage_def MaxUnLoggedConnectionCount_def
  UnLoggedConnectionTimeout_def

lemmas example_defs = exampleConfig_def exampleEnv_def accepted_def loggedIn_def

section \<open>Frames and topics\<close>

lemma contains_set: "contains source target \<longleftrightarrow> target \<in> set source"
  by (induction source) auto

lemma topic_frame:
  "TopicPrefix @ name \<noteq> ''ping''"
  "\<not> HasPrefix (TopicPrefix @ name) LoginPrefix"
  "HasPrefix (TopicPrefix @ name) TopicPrefix"
  "drop (length TopicPrefix) (TopicPrefix @ name) = name"
  by (simp_all add: TopicPrefix_def LoginPrefix_def HasPrefix_def)

lemma login_frame:
  "LoginPrefix @ tokenBinary \<noteq> ''ping''"
  "HasPrefix (LoginPrefix @ tokenBinary) LoginPrefix"
  "drop (length LoginPrefix) (LoginPrefix @ tokenBinary) = tokenBinary"
  by (simp_all add: LoginPrefix_def HasPrefix_def)

lemma onTextMessage_login:
  "onTextMessage env w c (LoginPrefix @ tokenBinary) = login env w c tokenBinary"
  by (simp add: onTextMessage_def login_frame)

section \<open>The storage under removal\<close>

text \<open>No step of \<^verbatim>\<open>RemoveIf\<close> writes the counter of unauthenticated connections.\<close>

lemma RemoveIf_body_counter:
  "numberOfNotLoggedConnections (snd (RemoveIf_body condition afterRemove e hs)) =
   numberOfNotLoggedConnections (snd hs)"
  by (cases e, cases hs) (simp add: RemoveIf_body_def GetInfo_def Let_def split: option.splits)

lemma RemoveIf_loop_counter:
  "numberOfNotLoggedConnections (snd (RemoveIf_loop condition afterRemove es hs)) =
   numberOfNotLoggedConnections (snd hs)"
  by (induction es arbitrary: hs) (simp_all add: RemoveIf_body_counter)

lemma RemoveIf_counter:
  "numberOfNotLoggedConnections (snd (RemoveIf condition afterRemove hs)) =
   numberOfNotLoggedConnections (snd hs)"
  by (simp add: RemoveIf_def RemoveIf_loop_counter)

text \<open>The sweep never writes a start time, never reopens a socket, never adds an entry.\<close>

lemma body_startTime:
  "startTime (fst (RemoveIf_body condition closeAuth e hs) p) = startTime (fst hs p)"
  by (cases e, cases hs)
    (simp add: RemoveIf_body_def GetInfo_def Let_def Close_def WriteMessage_def
      split: option.splits)

lemma body_stays_closed:
  "\<not> ws_open (fst hs p) \<Longrightarrow> \<not> ws_open (fst (RemoveIf_body condition closeAuth e hs) p)"
  by (cases e, cases hs)
    (simp add: RemoveIf_body_def GetInfo_def Let_def Close_def WriteMessage_def
      split: option.splits)

lemma body_stays_deleted:
  "map_of (connectionsByID (snd hs)) i = None \<Longrightarrow>
   map_of (connectionsByID (snd (RemoveIf_body condition afterRemove e hs))) i = None"
  by (cases e, cases hs)
    (simp add: RemoveIf_body_def GetInfo_def Let_def delete_conv' split: option.splits)

lemma body_closes:
  "olderThan now (fst hs) c \<Longrightarrow>
   \<not> ws_open (fst (RemoveIf_body (olderThan now) closeAuth (i, c) hs) c) \<and>
   map_of (connectionsByID (snd (RemoveIf_body (olderThan now) closeAuth (i, c) hs))) i = None"
  by (cases hs)
    (simp add: RemoveIf_body_def GetInfo_def Let_def Close_def delete_conv' split: option.splits)

lemma loop_startTime:
  "startTime (fst (RemoveIf_loop condition closeAuth es hs) p) = startTime (fst hs p)"
  by (induction es arbitrary: hs) (simp_all add: body_startTime)

lemma loop_stays_closed:
  "\<not> ws_open (fst hs p) \<Longrightarrow> \<not> ws_open (fst (RemoveIf_loop condition closeAuth es hs) p)"
  by (induction es arbitrary: hs) (simp_all add: body_stays_closed)

lemma loop_stays_deleted:
  "map_of (connectionsByID (snd hs)) i = None \<Longrightarrow>
   map_of (connectionsByID (snd (RemoveIf_loop condition afterRemove es hs))) i = None"
  by (induction es arbitrary: hs) (simp_all add: body_stays_deleted)

text \<open>Every entry whose connection is older than the timeout is closed and deleted.\<close>

lemma loop_closes:
  assumes "(i, c) \<in> set es" and "now - startTime (fst hs c) > UnLoggedConnectionTimeout"
  shows "\<not> ws_open (fst (RemoveIf_loop (olderThan now) closeAuth es hs) c) \<and>
         map_of (connectionsByID (snd (RemoveIf_loop (olderThan now) closeAuth es hs))) i = None"
  using assms
proof (induction es arbitrary: hs)
  case Nil
  then show ?case by simp
next
  case (Cons e es)
  show ?case
  proof (cases "e = (i, c)")
    case True
    have "olderThan now (fst hs) c"
      using Cons.prems(2) by (simp add: GetStartTime_def)
    from body_closes [OF this, of i] True show ?thesis
      by (simp add: loop_stays_closed loop_stays_deleted)
  next
    case False
    with Cons.prems have "(i, c) \<in> set es"
      by simp
    moreover have "now - startTime (fst (RemoveIf_body (olderThan now) closeAuth e hs) c)
        > UnLoggedConnectionTimeout"
      using Cons.prems(2) by (simp add: body_startTime)
    ultimately show ?thesis
      using Cons.IH by simp
  qed
qed



section \<open>A crowd of unauthenticated connections\<close>

lemma update_fresh: "k \<notin> fst ` set al \<Longrightarrow> AList.update k v al = al @ [(k, v)]"
  by (induction al) auto

lemma crowd_0: "loggedIn = crowd 0"
  by (simp add: crowd_def connection_defs storage_defs token_defs gateway_defs example_defs
      fun_eq_iff)

lemma crowd_register: "registerConnection 100 (crowd n) = (crowd (Suc n), Suc n)"
proof -
  have "2 + int n \<notin> fst ` set (map (\<lambda>p. (int p + 1, p)) [0..<Suc n])"
    by (auto simp add: image_iff)
  then have "AList.update (2 + int n) (Suc n) (map (\<lambda>p. (int p + 1, p)) [0..<Suc n]) =
      map (\<lambda>p. (int p + 1, p)) [0..<Suc (Suc n)]"
    by (simp add: update_fresh)
  then show ?thesis
    by (simp add: registerConnection_def crowd_def AddNewConnection_def NewConnection_def
        Let_def fun_eq_iff del: upt_Suc)
qed

text \<open>Up to 200 unauthenticated connections no accept sweeps.\<close>

lemma crowd_accept: "n < 200 \<Longrightarrow> onConnection 100 (crowd n) = (crowd (Suc n), Suc n)"
  by (simp add: onConnection_def crowd_register cleanConnectionsIfNeed_def GetStats_def
      MaxUnLoggedConnectionCount_def)
    (simp add: crowd_def)

lemma accepts_crowd: "n \<le> 200 \<Longrightarrow> accepts 100 n loggedIn = crowd n"
  by (induction n) (simp_all add: crowd_0 [symmetric] crowd_accept)

lemma crowded_crowd: "crowded = crowd 201"
  by (simp add: crowded_def accepts_crowd crowd_register)

text \<open>The next accept is the sweep of \<open>crowded\<close>; only object 0 is older than the timeout.\<close>

lemma crowded_accept:
  "onConnection 100 (accepts 100 200 loggedIn) = (cleanConnectionsIfNeed 100 crowded 201, 201)"
  by (simp add: onConnection_def crowded_def accepts_crowd crowd_register)

lemma crowded_young:
  "0 < p \<Longrightarrow> p < 202 \<Longrightarrow>
   \<not> 100 - GetStartTime (heap crowded) p > UnLoggedConnectionTimeout"
  by (simp add: crowded_crowd crowd_def GetStartTime_def NewConnection_def
      UnLoggedConnectionTimeout_def)

section \<open>Logins that are turned down, reads that end, subscriptions that fail\<close>

text \<open>
  A token without exactly one scheme, a token the library rejects and a token the library
  parses but finds invalid get the same reply; nothing else of the state changes but the
  package variable that \<^verbatim>\<open>ParseJWT\<close> writes.
\<close>

lemma unresolved_token_replies:
  "ResolveIDToken tokenBinary = (idtoken, False) \<Longrightarrow>
   login env w c tokenBinary = Running (reply w c ''login>:Not Authorized'')"
  by (simp add: login_def LoginPrefix_def)

lemma rejected_token_replies:
  assumes "ResolveIDToken tokenBinary = (idtoken, True)"
    and "ParseWithClaims env idtoken (JWKS (config w)) = ParseErr e \<or>
         ParseWithClaims env idtoken (JWKS (config w)) = Parsed claims False"
  shows "login env w c tokenBinary =
         Running (reply (w\<lparr>JWKS_var := JWKS (config w)\<rparr>) c ''login>:Not Authorized'')"
  using assms by (auto simp add: login_def ParseJWT_def LoginPrefix_def)

text \<open>
  A close frame of the peer does unregister the connection: the close handler runs
  \<^verbatim>\<open>onClose\<close> while the identifier is still the one of the registration.
\<close>

lemma peer_close_unregisters:
  "handleInputMessages exampleEnv accepted 0 [PeerClose] =
     Running (accepted\<lparr>heap := Close (heap accepted) 0 CloseInternalServerErr ''ServerError'',
                connections := NewConnectionsStorage\<rparr>, True)"
  by (simp add: connection_defs storage_defs gateway_defs example_defs)

text \<open>
  When an authenticated session asks for a listed topic and the pool gives no handle, or
  the subscribe call on the handle fails, the handler leaves through \<^verbatim>\<open>log.Fatalf\<close>: no
  reply is written and the read loop serves no further frame, whatever follows.
\<close>

lemma subscribe_failure_exits:
  assumes "IsLoggedIn (heap w) c" and "topic \<in> set (NatsTopics (config w))"
    and "Pool_Get env = GetErr e \<or>
         (Pool_Get env = GetOk busClient \<and> Subscribe env busClient topic = SubErr e)"
  shows "onTextMessage env w c (TopicPrefix @ topic) = Exited (''Can't connect to nats: '' @ e)"
    and "handleInputMessages env w c (Message now TextMessage (TopicPrefix @ topic) # rs) =
         Exited (''Can't connect to nats: '' @ e)"
proof -
  have exits: "onTextMessage env w' c (TopicPrefix @ topic) =
      Exited (''Can't connect to nats: '' @ e)"
    if "IsLoggedIn (heap w') c" and "config w' = config w" for w'
    using that assms(2,3)
    by (auto simp add: onTextMessage_def topic_frame setupSubsrciber_def contains_set)
  from exits [of w] assms(1)
  show "onTextMessage env w c (TopicPrefix @ topic) = Exited (''Can't connect to nats: '' @ e)"
    by simp
  have "IsLoggedIn (heap (w\<lparr>heap := UpdateLastPingTime now (heap w) c\<rparr>)) c"
    using assms(1) by (simp add: IsLoggedIn_def UpdateLastPingTime_def)
  with exits
  show "handleInputMessages env w c (Message now TextMessage (TopicPrefix @ topic) # rs) =
      Exited (''Can't connect to nats: '' @ e)"
    by (simp add: TextMessage_def)
qed

section \<open>The claims\<close>

text \<open>
  C1, at the input where it fails.  One connection is registered in a fresh storage and
  the sweep of the gateway (older than the timeout; close with "Auth") runs at time 61.
  Before the sweep the counter and the by-id map agree on one unauthenticated session.
  The sweep takes the connection out of the by-id map and leaves the counter alone: the
  statistics still report one unauthenticated connection, the by-id map holds none.
\<close>

theorem RemoveIf_leaves_counter:
  "NumberOfNotLoggedConnections (GetStats (snd oneRegistered)) = 1
   \<and> unauthenticatedByID (fst oneRegistered) (snd oneRegistered) = 1
   \<and> connectionsByID (snd swept) = []
   \<and> unauthenticatedByID (fst swept) (snd swept) = 0
   \<and> NumberOfNotLoggedConnections (GetStats (snd swept)) = 1"
  by (simp add: connection_defs storage_defs gateway_defs oneRegistered_def swept_def
      unauthenticatedByID_def)



text \<open>
  C3, where it fails.  Whenever the accept-triggered sweep runs (the unauthenticated count
  is above the ceiling), it closes and unregisters every registered session that is older
  than the timeout, the authenticated ones too: the predicate it passes to \<^verbatim>\<open>RemoveIf\<close>
  reads the start time only.
\<close>

theorem sweep_closes_authenticated:
  assumes "NumberOfNotLoggedConnections (GetStats (connections w)) > MaxUnLoggedConnectionCount"
    and "(i, c) \<in> set (connectionsByID (connections w))"
    and "IsLoggedIn (heap w) c"
    and "now - startTime (heap w c) > UnLoggedConnectionTimeout"
  shows "\<not> ws_open (heap (cleanConnectionsIfNeed now w con) c) \<and>
         GetConnectionByID (connections (cleanConnectionsIfNeed now w con)) i = None"
  using assms(1) loop_closes [OF assms(2), of now "(heap w, connections w)"] assms(4)
  by (auto simp add: cleanConnectionsIfNeed_def RemoveIf_def GetConnectionByID_def Let_def
      split: prod.splits)

text \<open>
  The theorem of C3 on \<open>crowded\<close>, at time 100: the authenticated session is the only one
  older than the timeout, and the sweep closes it.
\<close>

theorem sweep_closes_authenticated_witness:
  "NumberOfNotLoggedConnections (GetStats (connections crowded)) > MaxUnLoggedConnectionCount
   \<and> (1, 0) \<in> set (connectionsByID (connections crowded))
   \<and> IsLoggedIn (heap crowded) 0
   \<and> 100 - startTime (heap crowded 0) > UnLoggedConnectionTimeout
   \<and> \<not> ws_open (heap (cleanConnectionsIfNeed 100 crowded 201) 0)
   \<and> GetConnectionByID (connections (cleanConnectionsIfNeed 100 crowded 201)) 1 = None"
proof -
  note defs = connection_defs storage_defs token_defs gateway_defs example_defs
  have h: "NumberOfNotLoggedConnections (GetStats (connections crowded))
      > MaxUnLoggedConnectionCount"
    "(1, 0) \<in> set (connectionsByID (connections crowded))"
    "IsLoggedIn (heap crowded) 0"
    "100 - startTime (heap crowded 0) > UnLoggedConnectionTimeout"
    by (simp_all add: crowded_crowd crowd_def defs upt_rec [of 0])
  show ?thesis
    using h sweep_closes_authenticated [OF h, of 201] by simp
qed

text \<open>
  C4, at the input where it fails.  The read of the accepted connection fails.  The loop
  closes the connection, which sets its identifier to -1, and then calls \<^verbatim>\<open>onClose\<close>,
  which returns at once on the identifier -1: the loop has returned, the storage is the
  one from before, and the by-id map still holds the closed connection under 1.  When the
  connection had logged in, the by-user and the by-device map keep it as well.
\<close>

theorem read_failure_leaves_registration:
  "handleInputMessages exampleEnv accepted 0 [ReadFailure] =
     Running (accepted\<lparr>heap := Close (heap accepted) 0 CloseInternalServerErr ''ServerError''\<rparr>,
              True)
   \<and> GetConnectionByID (connections accepted) 1 = Some 0
   \<and> ws_open (Close (heap accepted) 0 CloseInternalServerErr ''ServerError'' 0) = False
   \<and> ws_written (Close (heap accepted) 0 CloseInternalServerErr ''ServerError'' 0) =
       [CloseFrame CloseNormalClosure ''ServerError'']
   \<and> handleInputMessages exampleEnv loggedIn 0 [ReadFailure] =
     Running (loggedIn\<lparr>heap := Close (heap loggedIn) 0 CloseInternalServerErr ''ServerError''\<rparr>,
              True)
   \<and> GetConnectionByID (connections loggedIn) 1 = Some 0
   \<and> GetDeviceConnection (connections loggedIn) ''203.0.113.7'' = Some 0
   \<and> GetUserConnections (connections loggedIn) ''min ju'' = Some [(''203.0.113.7'', 0)]"
  by (simp add: connection_defs storage_defs token_defs gateway_defs example_defs)

text \<open>
  C5, at the inputs where it fails.  The token \<open>xBearer min\<close> does not begin with the
  scheme, yet \<^verbatim>\<open>ResolveIDToken\<close> reports it valid with the text after the scheme, and the
  login frame that carries it does what the frame with \<open>Bearer min\<close> does: it logs the
  connection in.  The token \<open>Bearer aBearer b\<close> begins with the scheme and is reported
  invalid.
\<close>

theorem ResolveIDToken_accepts_inner_scheme:
  "\<not> HasPrefix ''xBearer min'' ''Bearer ''
   \<and> ResolveIDToken ''xBearer min'' = (''min'', True)
   \<and> onTextMessage exampleEnv accepted 0 ''login>:xBearer min'' = Running loggedIn
   \<and> IsLoggedIn (heap loggedIn) 0
   \<and> HasPrefix ''Bearer aBearer b'' ''Bearer ''
   \<and> ResolveIDToken ''Bearer aBearer b'' = ([], False)"
  by (simp add: connection_defs storage_defs token_defs gateway_defs example_defs)

text \<open>
  C6, at the input where it fails.  The token library accepts the token \<open>nameless\<close>,
  whose claims hold neither \<open>userId\<close> nor \<open>name\<close>.  The login panics in the type
  assertion: no reply is written, the frame that follows is never served.
\<close>

theorem login_without_name_panics:
  "handleInputMessages exampleEnv accepted 0
     [Message 1 TextMessage ''login>:Bearer nameless'', Message 2 TextMessage ''ping''] =
   Panicked ''interface conversion: interface {} is not string''"
  by (simp add: connection_defs storage_defs token_defs gateway_defs example_defs)

text \<open>
  C7.  An open session that holds an identity, with the device of the gateway, sends a
  login whose token resolves to a user.  The login returns; it has written one reply to
  the session, \<open>ok\<close> when the resolved identity is the one the session holds and
  \<open>go away\<close> when it is not, and has stored the key-set address in the package variable.
  Nothing else has changed: the storage, the identity of the session and every other
  session are as before.
\<close>

theorem relogin_keeps_binding:
  assumes "ResolveIDToken tokenBinary = (idtoken, True)"
    and "ParseWithClaims env idtoken (JWKS (config w)) = Parsed claims True"
    and "claimsUserID claims = Some user"
    and "IsLoggedIn (heap w) c" and "ws_open (heap w c)"
    and "deviceID (heap w c) = RemoteAddr (config w)"
  shows "login env w c tokenBinary =
      Running (w\<lparr>JWKS_var := JWKS (config w),
                 heap := (heap w)(c := (heap w c)\<lparr>ws_written := ws_written (heap w c) @
                   [TextFrame
                     (if (user, RemoteAddr (config w)) = (userID (heap w c), deviceID (heap w c))
                      then ''ok'' else ''go away'')]\<rparr>)\<rparr>)"
  using assms
  by (auto simp add: login_def ParseJWT_def GetInfo_def IsLoggedIn_def reply_def SendText_def
      WriteMessage_def)

text \<open>
  The theorem of C7 on \<open>loggedIn\<close>, whose session holds the identity of \<open>min ju\<close>: the
  token of \<open>min ju\<close> is answered with \<open>ok\<close>, the token of \<open>ann\<close> with \<open>go away\<close>, and
  the rest of the state stays.
\<close>

theorem relogin_keeps_binding_witness:
  "IsLoggedIn (heap loggedIn) 0 \<and> ws_open (heap loggedIn 0)
   \<and> deviceID (heap loggedIn 0) = RemoteAddr (config loggedIn)
   \<and> userID (heap loggedIn 0) = ''min ju''
   \<and> login exampleEnv loggedIn 0 ''Bearer min'' =
       Running (loggedIn\<lparr>heap := (heap loggedIn)(0 := (heap loggedIn 0)
         \<lparr>ws_written := [TextFrame ''ok'', TextFrame ''ok'']\<rparr>)\<rparr>)
   \<and> login exampleEnv loggedIn 0 ''Bearer ann'' =
       Running (loggedIn\<lparr>heap := (heap loggedIn)(0 := (heap loggedIn 0)
         \<lparr>ws_written := [TextFrame ''ok'', TextFrame ''go away'']\<rparr>)\<rparr>)"
proof -
  note defs = connection_defs storage_defs token_defs gateway_defs example_defs
  have ann: "ResolveIDToken ''Bearer ann'' = (''ann'', True)"
    "ParseWithClaims exampleEnv ''ann'' (JWKS (config loggedIn)) =
       Parsed [''userId'' \<mapsto> JString ''ann''] True"
    "claimsUserID [''userId'' \<mapsto> JString ''ann''] = Some ''ann''"
    by (simp_all add: defs)
  have min: "ResolveIDToken ''Bearer min'' = (''min'', True)"
    "ParseWithClaims exampleEnv ''min'' (JWKS (config loggedIn)) =
       Parsed [''name'' \<mapsto> JString ''min ju''] True"
    "claimsUserID [''name'' \<mapsto> JString ''min ju''] = Some ''min ju''"
    by (simp_all add: defs)
  have h: "IsLoggedIn (heap loggedIn) 0" "ws_open (heap loggedIn 0)"
    "deviceID (heap loggedIn 0) = RemoteAddr (config loggedIn)"
    "userID (heap loggedIn 0) = ''min ju''"
    "ws_written (heap loggedIn 0) = [TextFrame ''ok'']"
    "loggedIn\<lparr>JWKS_var := JWKS (config loggedIn)\<rparr> = loggedIn"
    by (simp_all add: defs)
  show ?thesis
    using h relogin_keeps_binding [OF ann h(1-3)] relogin_keeps_binding [OF min h(1-3)]
    by simp
qed

text \<open>
  C8.  An open, authenticated session sends \<open>topic>:\<close> followed by a name that is not in
  the configured list.  The handler returns; the only change of the state is the reply
  \<open>invalid topic\<close> written to the session: no handle was taken from the pool, no
  subscription was installed, and the session is open and authenticated as before.
\<close>

theorem invalid_topic_rejected:
  assumes "IsLoggedIn (heap w) c" and "ws_open (heap w c)"
    and "name \<notin> set (NatsTopics (config w))"
  shows "onTextMessage env w c (TopicPrefix @ name) =
      Running (w\<lparr>heap := (heap w)(c := (heap w c)\<lparr>ws_written := ws_written (heap w c) @
        [TextFrame ''invalid topic'']\<rparr>)\<rparr>)"
proof -
  have "onTextMessage env w c (TopicPrefix @ name) = setupSubsrciber env w c name"
    using assms(1) by (simp add: onTextMessage_def topic_frame)
  moreover have "setupSubsrciber env w c name = Running (reply w c ''invalid topic'')"
    using assms(3) by (simp add: setupSubsrciber_def contains_set)
  ultimately show ?thesis
    using assms(2) by (simp add: reply_def SendText_def WriteMessage_def)
qed

text \<open>The theorem of C8 on \<open>loggedIn\<close> and the topic \<open>unknown.topic\<close>.\<close>

theorem invalid_topic_rejected_witness:
  "IsLoggedIn (heap loggedIn) 0 \<and> ws_open (heap loggedIn 0)
   \<and> ''unknown.topic'' \<notin> set (NatsTopics (config loggedIn))
   \<and> onTextMessage exampleEnv loggedIn 0 ''topic>:unknown.topic'' =
       Running (loggedIn\<lparr>heap := (heap loggedIn)(0 := (heap loggedIn 0)
         \<lparr>ws_written := [TextFrame ''ok'', TextFrame ''invalid topic'']\<rparr>)\<rparr>)
   \<and> leases loggedIn = [] \<and> subscriptions loggedIn = []"
proof -
  have h: "IsLoggedIn (heap loggedIn) 0" "ws_open (heap loggedIn 0)"
    "''unknown.topic'' \<notin> set (NatsTopics (config loggedIn))"
    "ws_written (heap loggedIn 0) = [TextFrame ''ok'']"
    "leases loggedIn = []" "subscriptions loggedIn = []"
    by (simp_all add: connection_defs storage_defs token_defs gateway_defs example_defs)
  show ?thesis
    using h invalid_topic_rejected [OF h(1) h(2) h(3), of exampleEnv]
    by (simp add: TopicPrefix_def)
qed

text \<open>
  C9, at the input where it fails.  The session of \<open>loggedIn\<close> is open and authenticated
  and asks for the listed topic \<open>test.a\<close> while the pool has no handle to give; a ping
  follows.  The read loop does not go on to the ping: the handler has logged the error with
  \<^verbatim>\<open>log.Fatalf\<close>, which ends the process.
\<close>

theorem subscribe_failure_ends_process:
  "IsLoggedIn (heap loggedIn) 0 \<and> ws_open (heap loggedIn 0)
   \<and> contains (NatsTopics (config loggedIn)) ''test.a''
   \<and> Pool_Get downEnv = GetErr ''nats: no servers available''
   \<and> handleInputMessages downEnv loggedIn 0
       [Message 5 TextMessage ''topic>:test.a'', Message 6 TextMessage ''ping''] =
     Exited ''Can't connect to nats: nats: no servers available''"
  by (simp add: connection_defs storage_defs token_defs gateway_defs example_defs downEnv_def)

text \<open>
  C10.  \<^verbatim>\<open>IsClosed\<close> returns no value on any connection: its body calls \<^verbatim>\<open>IsClosed\<close> on
  the same receiver and returns what that call returns, with no base case.  In the model
  not returning is the value \<open>None\<close>.
\<close>

theorem IsClosed_never_returns: "IsClosed h c = None"
proof (cases "IsClosed h c")
  case None
  then show ?thesis .
next
  case (Some b)
  have False
  proof (rule IsClosed.raw_induct [where P = "\<lambda>_ _ _. False", OF _ Some])
    fix f :: "store \<Rightarrow> ptr \<Rightarrow> bool option" and h' c' r
    assume "\<And>h c y. f h c = Some y \<Longrightarrow> False" and "f h' c' = Some r"
    then show False by blast
  qed
  then show ?thesis ..
qed

end
